theory Spec2Isabelle
  imports Complex_Main "HOL-Library.Dlist" "HOL-Library.Sublist"
begin

section \<open>pi3d Display: the frame loop of \<^verbatim>\<open>src/pi3d/Display.py\<close>\<close>

text \<open>
  The module is modelled by explicit state passing. A \<open>display\<close> record holds the
  attributes of one \<^verbatim>\<open>Display\<close> object, a \<open>process\<close> record holds what is
  process-wide (the module flags, the class attribute \<^verbatim>\<open>Display.INSTANCE\<close>, the
  number of clock readings taken so far and the chronological trace of calls made to
  the external collaborators). Every method takes both and returns both, also when it
  raises: Python keeps the mutations made before an exception.

  What lies outside the module is a parameter (\<open>env\<close>): whether a sprite hook raises,
  what \<^verbatim>\<open>time.time()\<close> returns at its n-th call, and the size reported by
  \<^verbatim>\<open>DisplayOpenGL\<close>. Sprite hooks are taken not to call back into the display.
  A float is represented by the real number it denotes. The float arithmetic of the
  interpreter (the division, the addition and the subtraction of lines 165-166) is a
  parameter as well, so that nothing is assumed about rounding.
\<close>

subsection \<open>Data model\<close>

type_synonym sprite = nat

text \<open>The three hooks of a sprite; \<open>repaint\<close> carries the time it is called with.\<close>

datatype call = load_opengl | repaint real | unload_opengl

text \<open>The exceptions the module can raise or let through.\<close>

datatype error =
    AssertionError
  | AttributeError
  | ZeroDivisionError
  | PlainException
  | SpriteFault call sprite

text \<open>Calls to the collaborators, in the order they are made.\<close>

datatype event =
    LogWarning
  | LogInfo
  | LogError
  | LogDebug
  | GLClear
  | SwapBuffers
  | Hook call sprite
  | Sleep real
  | OpenGLDestroy
  | MouseStop
  | TkDestroy
  | TkUpdate
  | CreateDisplay int int int int
  | MouseStart
  | MatrixModeProjection
  | MatrixModeModelview
  | LoadIdentity
  | Frustum real real real real real real
  | HintNicest
  | Ortho real real real real real real
  | SetBackground real real real real

text \<open>
  \<^verbatim>\<open>self.sprites\<close> starts as a list; line 154 rebinds it to a generator expression.
  A generator has no \<^verbatim>\<open>extend\<close> and is used up by iterating it: \<open>PyGen xs\<close> is a
  generator that still has \<open>xs\<close> to yield.
\<close>

datatype sprites_val = PyList "sprite list" | PyGen "sprite list"

fun items :: "sprites_val \<Rightarrow> sprite list" where
  "items (PyList xs) = xs"
| "items (PyGen xs) = xs"

text \<open>A tk window and a mouse, reduced to what the module reads from them.\<close>

datatype tkwin_obj = TkWin (winx: int) (winy: int) (winfo_pointerxy: "int \<times> int")

datatype mouse_obj = Mouse (position: "int \<times> int")

text \<open>
  A Python set is a duplicate-free list (\<open>dlist\<close>) whose order stands for the
  iteration order of the set, which Python leaves open; the theorems hold for every
  such list. An attribute that \<^verbatim>\<open>__init__\<close> does not assign is an \<open>option\<close>, \<open>None\<close>
  while it is absent; \<open>mouse\<close> is \<open>Some None\<close> when the attribute holds Python's
  \<^verbatim>\<open>None\<close>. \<open>frames_per_second\<close> is assigned nowhere in the module (\<^verbatim>\<open>create\<close>
  accepts the parameter and drops it): only the caller can set it.
\<close>

record display =
  ident :: nat
  tkwin :: "tkwin_obj option"
  sprites :: sprites_val
  sprites_to_load :: "sprite dlist"
  sprites_to_unload :: "sprite dlist"
  max_width :: int
  max_height :: int
  internal_loop :: bool
  external_loop :: bool
  is_running :: bool
  time :: "real option"
  frames_per_second :: "real option"
  mouse :: "mouse_obj option option"
  width :: "int option"
  height :: "int option"
  near :: "real option"
  far :: "real option"
  left :: "int option"
  top_y :: "int option"
  right :: "int option"
  bottom :: "int option"

record process =
  ALLOW_MULTIPLE_DISPLAYS :: bool
  RAISE_EXCEPTIONS :: bool
  INSTANCE :: "nat option"
  ticks :: nat
  trace :: "event list"

record env =
  raises :: "call \<Rightarrow> sprite \<Rightarrow> bool"
  clock :: "nat \<Rightarrow> real"
  float_add :: "real \<Rightarrow> real \<Rightarrow> real"
  float_sub :: "real \<Rightarrow> real \<Rightarrow> real"
  float_div :: "real \<Rightarrow> real \<Rightarrow> real"
  opengl_width :: int
  opengl_height :: int
  new_tkwin :: tkwin_obj
  new_mouse :: mouse_obj

text \<open>The module as imported: lines 17-18 and 33.\<close>

definition initial_process :: process where
  "initial_process =
     \<lparr>ALLOW_MULTIPLE_DISPLAYS = False, RAISE_EXCEPTIONS = True, INSTANCE = None,
      ticks = 0, trace = []\<rparr>"

definition DEFAULT_NEAR_3D :: real where "DEFAULT_NEAR_3D = 0.5"
definition DEFAULT_FAR_3D :: real where "DEFAULT_FAR_3D = 800.0"
definition DEFAULT_NEAR_2D :: real where "DEFAULT_NEAR_2D = -1.0"
definition DEFAULT_FAR_2D :: real where "DEFAULT_FAR_2D = 500.0"

definition emit :: "event \<Rightarrow> process \<Rightarrow> process" where
  "emit e p = p\<lparr>trace := trace p @ [e]\<rparr>"

subsection \<open>Construction and destruction\<close>

text \<open>
  \<^verbatim>\<open>Display.__init__\<close> (lines 36-57). \<open>self\<close> is the identity of the object being
  constructed. A live \<^verbatim>\<open>Display.INSTANCE\<close> is truthy (the class defines neither
  \<^verbatim>\<open>__bool__\<close> nor \<^verbatim>\<open>__len__\<close>); the \<^verbatim>\<open>assert\<close> of line 39 raises before anything
  is logged or assigned.
\<close>

definition Display_init ::
  "env \<Rightarrow> nat \<Rightarrow> tkwin_obj option \<Rightarrow> process \<Rightarrow> (error + display) \<times> process" where
  "Display_init env self tkw p =
     (let d = \<lparr>ident = self, tkwin = tkw, sprites = PyList [],
                sprites_to_load = Dlist.empty, sprites_to_unload = Dlist.empty,
                max_width = opengl_width env, max_height = opengl_height env,
                internal_loop = False, external_loop = False, is_running = True,
                time = None, frames_per_second = None, mouse = None,
                width = None, height = None, near = None, far = None,
                left = None, top_y = None, right = None, bottom = None\<rparr>
      in case INSTANCE p of
           Some other \<Rightarrow>
             if ALLOW_MULTIPLE_DISPLAYS p
             then (Inr d, emit LogInfo (emit LogWarning p))
             else (Inl AssertionError, p)
         | None \<Rightarrow> (Inr d, emit LogInfo (p\<lparr>INSTANCE := Some self\<rparr>)))"

definition stop :: "display \<Rightarrow> display" where
  "stop d = d\<lparr>is_running := False\<rparr>"

text \<open>
  \<^verbatim>\<open>Display.destroy\<close> (lines 105-120). Each release sits in a bare
  \<^verbatim>\<open>try/except: pass\<close>, so nothing propagates: a missing or \<^verbatim>\<open>None\<close> mouse or tk
  window raises an AttributeError that is swallowed before any call is made. Line 120
  is unconditional.
\<close>

definition destroy :: "display \<Rightarrow> process \<Rightarrow> display \<times> process" where
  "destroy d p =
     (let d1 = stop d;
          p1 = emit OpenGLDestroy p;
          p2 = (case mouse d1 of Some (Some m) \<Rightarrow> emit MouseStop p1 | _ \<Rightarrow> p1);
          p3 = (case tkwin d1 of Some t \<Rightarrow> emit TkDestroy p2 | None \<Rightarrow> p2)
      in (d1, p3\<lparr>INSTANCE := None\<rparr>))"

text \<open>
  \<^verbatim>\<open>Display.__del__\<close> (lines 181-182) calls \<^verbatim>\<open>destroy\<close> when the object is
  finalised.
\<close>

definition Display_del :: "display \<Rightarrow> process \<Rightarrow> display \<times> process" where
  "Display_del d p = destroy d p"


text \<open>
  \<^verbatim>\<open>Display.mouse_position\<close> (lines 132-139). Reading \<^verbatim>\<open>self.mouse\<close> raises when the
  attribute was never assigned, which is the case for a display built by the
  constructor alone; \<^verbatim>\<open>create\<close> always assigns it.
\<close>

definition mouse_position :: "display \<Rightarrow> error + int \<times> int" where
  "mouse_position d =
     (case mouse d of
        None \<Rightarrow> Inl AttributeError
      | Some (Some m) \<Rightarrow> Inr (position m)
      | Some None \<Rightarrow>
          (case tkwin d of
             Some t \<Rightarrow> Inr (winfo_pointerxy t)
           | None \<Rightarrow> Inr (- 1, - 1)))"

subsection \<open>The sprite registry\<close>

text \<open>\<^verbatim>\<open>add_sprites\<close> and \<^verbatim>\<open>remove_sprites\<close> (lines 91-99): \<^verbatim>\<open>set.update\<close>.\<close>

definition add_sprites :: "sprite list \<Rightarrow> display \<Rightarrow> display" where
  "add_sprites new d = d\<lparr>sprites_to_load := fold Dlist.insert new (sprites_to_load d)\<rparr>"

definition remove_sprites :: "sprite list \<Rightarrow> display \<Rightarrow> display" where
  "remove_sprites old d =
     d\<lparr>sprites_to_unload := fold Dlist.insert old (sprites_to_unload d)\<rparr>"

text \<open>
  The loop of \<^verbatim>\<open>_for_each_sprite\<close> (lines 173-179) over the sprites still to come.
  A hook that raises is logged; with \<^verbatim>\<open>RAISE_EXCEPTIONS\<close> the exception is raised
  again and the loop is left, otherwise the loop goes on. The result holds the
  exception, if any, and the sprites the iteration did not reach.
\<close>

fun for_each ::
  "env \<Rightarrow> call \<Rightarrow> sprite list \<Rightarrow> process \<Rightarrow> error option \<times> sprite list \<times> process" where
  "for_each env f [] p = (None, [], p)"
| "for_each env f (s # rest) p =
     (if raises env f s
      then (if RAISE_EXCEPTIONS p
            then (Some (SpriteFault f s), rest, emit LogError (emit (Hook f s) p))
            else for_each env f rest (emit LogError (emit (Hook f s) p)))
      else for_each env f rest (emit (Hook f s) p))"

definition outcome :: "error option \<Rightarrow> error + unit" where
  "outcome e = (case e of None \<Rightarrow> Inr () | Some x \<Rightarrow> Inl x)"

text \<open>
  \<^verbatim>\<open>Display._for_each_sprite\<close> (lines 170-179). Without an argument it iterates
  \<^verbatim>\<open>self.sprites\<close>: a list is left as it is, a generator is advanced.
\<close>

definition for_each_sprite ::
  "env \<Rightarrow> call \<Rightarrow> sprite list option \<Rightarrow> display \<Rightarrow> process \<Rightarrow>
   (error + unit) \<times> display \<times> process" where
  "for_each_sprite env f arg d p =
     (case arg of
        Some xs \<Rightarrow>
          (case for_each env f xs p of (e, rest, p1) \<Rightarrow> (outcome e, d, p1))
      | None \<Rightarrow>
          (case sprites d of
             PyList xs \<Rightarrow>
               (case for_each env f xs p of (e, rest, p1) \<Rightarrow> (outcome e, d, p1))
           | PyGen xs \<Rightarrow>
               (case for_each env f xs p of
                  (e, rest, p1) \<Rightarrow> (outcome e, d\<lparr>sprites := PyGen rest\<rparr>, p1))))"

text \<open>
  The loop of lines 161-162: the unload hook is called directly, outside
  \<^verbatim>\<open>_for_each_sprite\<close>, so an exception leaves \<^verbatim>\<open>_loop_end\<close> unlogged whatever
  \<^verbatim>\<open>RAISE_EXCEPTIONS\<close> says.
\<close>

fun unload_each :: "env \<Rightarrow> sprite list \<Rightarrow> process \<Rightarrow> error option \<times> process" where
  "unload_each env [] p = (None, p)"
| "unload_each env (s # rest) p =
     (if raises env unload_opengl s
      then (Some (SpriteFault unload_opengl s), emit (Hook unload_opengl s) p)
      else unload_each env rest (emit (Hook unload_opengl s) p))"

subsection \<open>The frame loop\<close>

text \<open>
  \<^verbatim>\<open>Display._loop_begin\<close> (lines 141-148). The pending set is swapped out before
  \<^verbatim>\<open>self.sprites.extend\<close> is looked up, so the AttributeError of a generator leaves
  the pending set empty.
\<close>

definition loop_begin ::
  "env \<Rightarrow> display \<Rightarrow> process \<Rightarrow> (error + unit) \<times> display \<times> process" where
  "loop_begin env d p =
     (let p1 = emit GLClear p;
          to_load = sprites_to_load d;
          d1 = d\<lparr>sprites_to_load := Dlist.empty\<rparr>
      in case sprites d1 of
           PyGen xs \<Rightarrow> (Inl AttributeError, d1, p1)
         | PyList xs \<Rightarrow>
             for_each_sprite env load_opengl (Some (list_of_dlist to_load))
               (d1\<lparr>sprites := PyList (xs @ list_of_dlist to_load)\<rparr>) p1)"

text \<open>
  Frame pacing, lines 164-168 of \<^verbatim>\<open>_loop_end\<close>. \<^verbatim>\<open>getattr(self, 'frames_per_second', 0)\<close>
  is falsy for an absent attribute, \<^verbatim>\<open>None\<close> and zero. \<^verbatim>\<open>self.time\<close> is assigned
  only by the first \<^verbatim>\<open>loop_running\<close>; reading it before raises. The sum, the
  quotient and the difference are the interpreter's float operations.
\<close>

definition frame_pacing ::
  "env \<Rightarrow> display \<Rightarrow> process \<Rightarrow> (error + unit) \<times> display \<times> process" where
  "frame_pacing env d p =
     (case frames_per_second d of
        None \<Rightarrow> (Inr (), d, p)
      | Some fps \<Rightarrow>
          if fps = 0 then (Inr (), d, p)
          else
            (case time d of
               None \<Rightarrow> (Inl AttributeError, d, p)
             | Some deadline \<Rightarrow>
                 (let later = float_add env deadline (float_div env 1 fps);
                      d1 = d\<lparr>time := Some later\<rparr>;
                      delta = float_sub env later (clock env (ticks p));
                      p1 = p\<lparr>ticks := Suc (ticks p)\<rparr>
                  in if delta > 0 then (Inr (), d1, emit (Sleep delta) p1)
                     else (Inr (), d1, p1))))"

text \<open>
  \<^verbatim>\<open>Display._loop_end\<close> (lines 150-168). Line 154 keeps the sprites that are in
  \<^verbatim>\<open>to_unload\<close> and rebinds \<^verbatim>\<open>self.sprites\<close> to a generator over the old value
  (its source is fixed when the generator is made, and \<^verbatim>\<open>to_unload\<close> is a local that
  nothing changes afterwards, so the filter can be applied at once).
\<close>

definition loop_end ::
  "env \<Rightarrow> display \<Rightarrow> process \<Rightarrow> (error + unit) \<times> display \<times> process" where
  "loop_end env d p =
     (let to_unload = sprites_to_unload d;
          d1 = d\<lparr>sprites_to_unload := Dlist.empty\<rparr>;
          d2 = (if list_of_dlist to_unload \<noteq> []
                then d1\<lparr>sprites :=
                         PyGen (filter (\<lambda>s. s \<in> set (list_of_dlist to_unload))
                                  (items (sprites d1)))\<rparr>
                else d1);
          t = clock env (ticks p);
          p1 = p\<lparr>ticks := Suc (ticks p)\<rparr>
      in case for_each_sprite env (repaint t) None d2 p1 of
           (Inl e, d3, p2) \<Rightarrow> (Inl e, d3, p2)
         | (Inr u, d3, p2) \<Rightarrow>
             (case unload_each env (list_of_dlist to_unload) (emit SwapBuffers p2) of
                (Some e, p3) \<Rightarrow> (Inl e, d3, p3)
              | (None, p3) \<Rightarrow> frame_pacing env d3 p3))"

text \<open>\<^verbatim>\<open>Display.loop_running\<close> (lines 59-74).\<close>

definition loop_running ::
  "env \<Rightarrow> display \<Rightarrow> process \<Rightarrow> (error + bool) \<times> display \<times> process" where
  "loop_running env d p =
     (if is_running d then
        (if internal_loop d then (Inl AssertionError, d, p)
         else
           (case (if external_loop d then loop_end env d p
                  else (Inr (),
                        d\<lparr>time := Some (clock env (ticks p)), external_loop := True\<rparr>,
                        p\<lparr>ticks := Suc (ticks p)\<rparr>)) of
              (Inl e, d1, p1) \<Rightarrow> (Inl e, d1, p1)
            | (Inr u, d1, p1) \<Rightarrow>
                (case loop_begin env d1 p1 of
                   (Inl e, d2, p2) \<Rightarrow> (Inl e, d2, p2)
                 | (Inr v, d2, p2) \<Rightarrow> (Inr (is_running d2), d2, p2))))
      else
        (case loop_end env d p of
           (Inl e, d1, p1) \<Rightarrow> (Inl e, d1, p1)
         | (Inr u, d1, p1) \<Rightarrow>
             (case destroy d1 p1 of (d2, p2) \<Rightarrow> (Inr (is_running d2), d2, p2))))"

subsection \<open>The factory\<close>

text \<open>
  The arguments of \<^verbatim>\<open>create\<close> (lines 188-192; the source repeats one line of the
  parameter list, the model takes each parameter once). \<open>None\<close> is Python's
  \<^verbatim>\<open>None\<close>. \<^verbatim>\<open>window_title\<close> and \<^verbatim>\<open>window_parent\<close> only reach the constructor of
  the tk window, which lies outside the module, and are left out; \<^verbatim>\<open>depth\<close> and
  \<^verbatim>\<open>frames_per_second\<close> are accepted and never read.
\<close>

record create_args =
  is_3d_arg :: bool
  x_arg :: "int option"
  y_arg :: "int option"
  w_arg :: "int option"
  h_arg :: "int option"
  near_arg :: "real option"
  far_arg :: "real option"
  aspect_arg :: real
  depth_arg :: int
  background_arg :: "(real \<times> real \<times> real \<times> real) option"
  tk_arg :: bool
  mouse_arg :: bool
  frames_per_second_arg :: "real option"

text \<open>\<^verbatim>\<open>v or 0\<close> for an optional integer.\<close>

definition or0 :: "int option \<Rightarrow> int" where
  "or0 v = (case v of None \<Rightarrow> 0 | Some n \<Rightarrow> n)"

text \<open>Lines 247-254: a missing or non-positive extent falls back on the screen's.\<close>

definition extent :: "int option \<Rightarrow> int \<Rightarrow> int \<Rightarrow> int" where
  "extent v full offset =
     (if or0 v \<le> 0
      then (if full - 2 * offset \<le> 0 then full else full - 2 * offset)
      else or0 v)"

definition radians :: "real \<Rightarrow> real" where
  "radians a = a * pi / 180"

text \<open>
  Lines 227-244 of \<^verbatim>\<open>create\<close>: the tk window and the origin. With \<^verbatim>\<open>tk\<close> a
  width and a height are required (\<^verbatim>\<open>w and h\<close>: neither \<^verbatim>\<open>None\<close> nor zero).
\<close>

definition open_window ::
  "env \<Rightarrow> create_args \<Rightarrow> process \<Rightarrow> (error + tkwin_obj option \<times> int \<times> int) \<times> process" where
  "open_window env a p =
     (if tk_arg a then
        (if or0 (w_arg a) = 0 \<or> or0 (h_arg a) = 0
         then (Inl PlainException, emit LogError p)
         else (Inr (Some (new_tkwin env),
                    (case x_arg a of None \<Rightarrow> winx (new_tkwin env) | Some v \<Rightarrow> v),
                    (case y_arg a of None \<Rightarrow> winy (new_tkwin env) | Some v \<Rightarrow> v)),
               emit TkUpdate p))
      else (Inr (None, or0 (x_arg a), or0 (y_arg a)), p))"

text \<open>
  Lines 280-293: the projection. In three dimensions \<^verbatim>\<open>hht * w / h\<close> divides a
  float by \<^verbatim>\<open>h\<close>, which raises when \<^verbatim>\<open>h\<close> is zero.
\<close>

definition set_projection ::
  "create_args \<Rightarrow> int \<Rightarrow> int \<Rightarrow> real \<Rightarrow> real \<Rightarrow> process \<Rightarrow> error option \<times> process" where
  "set_projection a w h nr fr p =
     (let p1 = emit LoadIdentity (emit MatrixModeProjection p);
          hht = nr * tan (radians (aspect_arg a / 2))
      in if is_3d_arg a then
           (if h = 0 then (Some ZeroDivisionError, p1)
            else (None,
                  emit LoadIdentity (emit MatrixModeModelview (emit HintNicest
                    (emit (Frustum (- (hht * real_of_int w / real_of_int h))
                             (hht * real_of_int w / real_of_int h) (- hht) hht nr fr) p1)))))
         else (None,
               emit LoadIdentity (emit MatrixModeModelview
                 (emit (Ortho 0 (real_of_int w) 0 (real_of_int h) nr fr) p1))))"

text \<open>\<^verbatim>\<open>Display.set_background\<close> (lines 127-129).\<close>

definition set_background :: "real \<Rightarrow> real \<Rightarrow> real \<Rightarrow> real \<Rightarrow> process \<Rightarrow> process" where
  "set_background r g b alpha p = emit (SetBackground r g b alpha) p"

text \<open>\<^verbatim>\<open>create\<close> (lines 227-298). The constructor may raise.\<close>

definition create :: "env \<Rightarrow> nat \<Rightarrow> create_args \<Rightarrow> process \<Rightarrow> (error + display) \<times> process" where
  "create env self a p =
     (case open_window env a p of
        (Inl e, p0) \<Rightarrow> (Inl e, p0)
      | (Inr (tkw, x, y), p0) \<Rightarrow>
          (case Display_init env self tkw p0 of
             (Inl e, p1) \<Rightarrow> (Inl e, p1)
           | (Inr d, p1) \<Rightarrow>
               (let w = extent (w_arg a) (max_width d) x;
                    h = extent (h_arg a) (max_height d) y;
                    nr = (case near_arg a of
                            None \<Rightarrow> if is_3d_arg a then DEFAULT_NEAR_3D else DEFAULT_NEAR_2D
                          | Some v \<Rightarrow> v);
                    fr = (case far_arg a of
                            None \<Rightarrow> if is_3d_arg a then DEFAULT_FAR_3D else DEFAULT_FAR_2D
                          | Some v \<Rightarrow> v);
                    d1 = d\<lparr>width := Some w, height := Some h, near := Some nr,
                           far := Some fr, left := Some x, top_y := Some y,
                           right := Some (x + w), bottom := Some (y + h)\<rparr>;
                    p2 = emit (CreateDisplay x y w h) (emit LogDebug p1);
                    d2 = d1\<lparr>mouse := Some None\<rparr>;
                    d3 = (if mouse_arg a then d2\<lparr>mouse := Some (Some (new_mouse env))\<rparr>
                          else d2);
                    p3 = (if mouse_arg a then emit MouseStart p2 else p2)
                in case set_projection a w h nr fr p3 of
                     (Some e, p4) \<Rightarrow> (Inl e, p4)
                   | (None, p4) \<Rightarrow>
                       (Inr d3,
                        (case background_arg a of
                           None \<Rightarrow> p4
                         | Some (r, g, b, alpha) \<Rightarrow> set_background r g b alpha p4)))))"

subsection \<open>Sample inputs\<close>

text \<open>
  An environment in which no hook raises and the clock advances by a hundredth of a
  second from one reading to the next (its float operations are the exact ones; no
  result below computes with them); one in which the unload hook of sprite 1
  raises; and the default arguments of \<^verbatim>\<open>create\<close> (lines 188-192).
\<close>

definition quiet_env :: env where
  "quiet_env =
     \<lparr>raises = (\<lambda>c s. False), clock = (\<lambda>n. real n / 100),
      float_add = (\<lambda>a b. a + b), float_sub = (\<lambda>a b. a - b),
      float_div = (\<lambda>a b. a / b), opengl_width = 1920,
      opengl_height = 1080, new_tkwin = TkWin 10 20 (5, 7), new_mouse = Mouse (3, 4)\<rparr>"

definition faulty_env :: env where
  "faulty_env = quiet_env\<lparr>raises := (\<lambda>c s. c = unload_opengl \<and> s = 1)\<rparr>"

definition default_args :: create_args where
  "default_args =
     \<lparr>is_3d_arg = True, x_arg = None, y_arg = None, w_arg = None, h_arg = None,
      near_arg = None, far_arg = None, aspect_arg = 60, depth_arg = 24,
      background_arg = None, tk_arg = False, mouse_arg = False,
      frames_per_second_arg = None\<rparr>"

text \<open>
  A session: a display made with the defaults, three sprites added, the first
  \<^verbatim>\<open>loop_running\<close>; then either sprite 2 or sprite 1 is marked for removal, or a
  frame rate is set by the caller.
\<close>

definition fresh :: "(error + display) \<times> process" where
  "fresh = create quiet_env 1 default_args initial_process"

definition fresh_display :: display where
  "fresh_display = projr (fst fresh)"

definition fresh_process :: process where
  "fresh_process = snd fresh"

definition frame1 :: "(error + bool) \<times> display \<times> process" where
  "frame1 = loop_running quiet_env (add_sprites [1, 2, 3] fresh_display) fresh_process"

definition frame1_display :: display where
  "frame1_display = fst (snd frame1)"

definition frame1_process :: process where
  "frame1_process = snd (snd frame1)"

text \<open>A display with a tk window, and a flat (two-dimensional) one.\<close>

definition tk_display :: display where
  "tk_display =
     projr (fst (create quiet_env 1
       (default_args\<lparr>tk_arg := True, w_arg := Some 640, h_arg := Some 480\<rparr>)
       initial_process))"

definition flat_args :: create_args where
  "flat_args = default_args\<lparr>is_3d_arg := False, far_arg := Some 100\<rparr>"

definition flat_display :: display where
  "flat_display = projr (fst (create quiet_env 1 flat_args initial_process))"

text \<open>
  The first display destroyed, a second one made, as when the first object is
  released late (\<^verbatim>\<open>__del__\<close> calls \<^verbatim>\<open>destroy\<close>).
\<close>

definition retired :: "display \<times> process" where
  "retired = destroy fresh_display fresh_process"

definition second :: "(error + display) \<times> process" where
  "second = create quiet_env 2 default_args (snd retired)"

text \<open>
  The session again, for a display made with \<^verbatim>\<open>frames_per_second=30\<close>: the first
  \<^verbatim>\<open>loop_running\<close> and the second.
\<close>

definition paced_args :: create_args where
  "paced_args = default_args\<lparr>frames_per_second_arg := Some 30\<rparr>"

definition paced :: "(error + display) \<times> process" where
  "paced = create quiet_env 1 paced_args initial_process"

definition paced_frame1 :: "(error + bool) \<times> display \<times> process" where
  "paced_frame1 =
     loop_running quiet_env (add_sprites [1, 2, 3] (projr (fst paced))) (snd paced)"

definition paced_frame2 :: "(error + bool) \<times> display \<times> process" where
  "paced_frame2 =
     loop_running quiet_env (fst (snd paced_frame1)) (snd (snd paced_frame1))"

text \<open>Observers of the trace.\<close>

fun is_sleep :: "event \<Rightarrow> bool" where
  "is_sleep (Sleep delta) = True"
| "is_sleep e = False"

fun on_sprite :: "sprite \<Rightarrow> event \<Rightarrow> bool" where
  "on_sprite s (Hook c s') = (s' = s)"
| "on_sprite s e = False"

section \<open>Properties\<close>

subsection \<open>Evaluating the sample session\<close>

lemmas factory_defs = create_def open_window_def set_projection_def Display_init_def
  extent_def or0_def emit_def Let_def
  DEFAULT_NEAR_3D_def DEFAULT_FAR_3D_def DEFAULT_NEAR_2D_def DEFAULT_FAR_2D_def

lemmas loop_defs = loop_running_def loop_begin_def loop_end_def frame_pacing_def
  for_each_sprite_def outcome_def add_sprites_def remove_sprites_def emit_def Let_def

lemma fresh_eval:
  "fresh =
    (Inr \<lparr>ident = 1, tkwin = None, sprites = PyList [],
           sprites_to_load = Dlist.empty, sprites_to_unload = Dlist.empty,
           max_width = 1920, max_height = 1080, internal_loop = False,
           external_loop = False, is_running = True, time = None,
           frames_per_second = None, mouse = Some None, width = Some 1920,
           height = Some 1080, near = Some (1 / 2), far = Some 800,
           left = Some 0, top_y = Some 0, right = Some 1920, bottom = Some 1080\<rparr>,
     \<lparr>ALLOW_MULTIPLE_DISPLAYS = False, RAISE_EXCEPTIONS = True,
        INSTANCE = Some 1, ticks = 0,
        trace =
          [LogInfo, LogDebug, CreateDisplay 0 0 1920 1080,
           MatrixModeProjection, LoadIdentity,
           Frustum (- (8 * tan (radians 30) / 9)) (8 * tan (radians 30) / 9)
             (- (tan (radians 30) / 2)) (tan (radians 30) / 2) (1 / 2) 800,
           HintNicest, MatrixModeModelview, LoadIdentity]\<rparr>)"
  by (simp add: fresh_def factory_defs quiet_env_def initial_process_def default_args_def)

lemma frame1_eval:
  "frame1 =
    (Inr True,
     fresh_display\<lparr>sprites := PyList [3, 2, 1], external_loop := True, time := Some 0\<rparr>,
     fresh_process\<lparr>ticks := 1,
       trace := trace fresh_process @
         [GLClear, Hook load_opengl 3, Hook load_opengl 2, Hook load_opengl 1]\<rparr>)"
  by (simp add: frame1_def fresh_display_def fresh_process_def fresh_eval loop_defs
        quiet_env_def)

lemma tk_display_eval:
  "tk_display =
     fresh_display\<lparr>tkwin := Some (TkWin 10 20 (5, 7)), width := Some 640,
       height := Some 480, left := Some 10, top_y := Some 20, right := Some 650,
       bottom := Some 500\<rparr>"
  by (simp add: tk_display_def fresh_display_def fresh_eval factory_defs quiet_env_def
        initial_process_def default_args_def)

lemma retired_eval:
  "retired =
     (fresh_display\<lparr>is_running := False\<rparr>,
      fresh_process\<lparr>INSTANCE := None, trace := trace fresh_process @ [OpenGLDestroy]\<rparr>)"
  by (simp add: retired_def fresh_display_def fresh_process_def fresh_eval destroy_def
        stop_def emit_def)

lemma second_eval:
  "second =
     (Inr (fresh_display\<lparr>ident := 2\<rparr>),
      fresh_process\<lparr>INSTANCE := Some 2,
        trace := trace fresh_process @ OpenGLDestroy # trace fresh_process\<rparr>)"
  by (simp add: second_def retired_eval fresh_display_def fresh_process_def fresh_eval
        factory_defs quiet_env_def default_args_def)

subsection \<open>Hook loops in which nothing raises\<close>

lemma for_each_no_fault:
  "list_all (\<lambda>s. \<not> raises env f s) xs \<Longrightarrow>
   for_each env f xs p = (None, [], p\<lparr>trace := trace p @ map (Hook f) xs\<rparr>)"
  by (induction xs arbitrary: p) (simp_all add: emit_def)

lemma unload_each_no_fault:
  "list_all (\<lambda>s. \<not> raises env unload_opengl s) xs \<Longrightarrow>
   unload_each env xs p = (None, p\<lparr>trace := trace p @ map (Hook unload_opengl) xs\<rparr>)"
  by (induction xs arbitrary: p) (simp_all add: emit_def)

lemma for_each_sprite_no_fault:
  assumes "\<forall>c s. \<not> raises env c s"
  shows "for_each_sprite env f None d p =
     (Inr (),
      (case sprites d of PyList xs \<Rightarrow> d | PyGen xs \<Rightarrow> d\<lparr>sprites := PyGen []\<rparr>),
      p\<lparr>trace := trace p @ map (Hook f) (items (sprites d))\<rparr>)"
  using assms
  by (cases "sprites d")
     (simp_all add: for_each_sprite_def for_each_no_fault list_all_iff outcome_def)

text \<open>
  When no hook raises, the end phase reaches the pacing step with one clock reading
  taken: the sprites that line 154 leaves have been repainted, the buffers swapped
  and the marked sprites unloaded.
\<close>

lemma loop_end_no_fault:
  assumes "\<forall>c s. \<not> raises env c s"
  shows "\<exists>d1.
     loop_end env d p =
       frame_pacing env d1
         (p\<lparr>ticks := Suc (ticks p),
            trace := trace p @
              map (Hook (repaint (clock env (ticks p))))
                (if list_of_dlist (sprites_to_unload d) = [] then items (sprites d)
                 else filter (\<lambda>s. s \<in> set (list_of_dlist (sprites_to_unload d)))
                        (items (sprites d))) @
              SwapBuffers #
              map (Hook unload_opengl) (list_of_dlist (sprites_to_unload d))\<rparr>) \<and>
     time d1 = time d \<and> frames_per_second d1 = frames_per_second d \<and>
     is_running d1 = is_running d \<and> mouse d1 = mouse d \<and> tkwin d1 = tkwin d"
proof -
  let ?U = "list_of_dlist (sprites_to_unload d)"
  let ?d1 = "d\<lparr>sprites_to_unload := Dlist.empty\<rparr>"
  let ?d2 = "if ?U \<noteq> []
             then ?d1\<lparr>sprites := PyGen (filter (\<lambda>s. s \<in> set ?U) (items (sprites ?d1)))\<rparr>
             else ?d1"
  let ?t = "clock env (ticks p)"
  let ?d3 = "case sprites ?d2 of PyList xs \<Rightarrow> ?d2 | PyGen xs \<Rightarrow> ?d2\<lparr>sprites := PyGen []\<rparr>"
  let ?R = "if ?U = [] then items (sprites d) else filter (\<lambda>s. s \<in> set ?U) (items (sprites d))"
  let ?evs = "map (Hook (repaint ?t)) ?R @ SwapBuffers # map (Hook unload_opengl) ?U"
  have u: "list_all (\<lambda>s. \<not> raises env unload_opengl s) ?U"
    using assms by (simp add: list_all_iff)
  have r: "items (sprites ?d2) = ?R"
    by simp
  have "for_each_sprite env (repaint ?t) None ?d2 (p\<lparr>ticks := Suc (ticks p)\<rparr>) =
     (Inr (), ?d3, p\<lparr>ticks := Suc (ticks p), trace := trace p @ map (Hook (repaint ?t)) ?R\<rparr>)"
    unfolding for_each_sprite_no_fault [OF assms] r by simp
  then have eq: "loop_end env d p =
          frame_pacing env ?d3 (p\<lparr>ticks := Suc (ticks p), trace := trace p @ ?evs\<rparr>)"
    unfolding loop_end_def Let_def
    by (simp add: unload_each_no_fault [OF u] emit_def)
  have props: "time ?d3 = time d \<and> frames_per_second ?d3 = frames_per_second d \<and>
     is_running ?d3 = is_running d \<and> mouse ?d3 = mouse d \<and> tkwin ?d3 = tkwin d"
    by (simp split: sprites_val.splits)
  from eq props show ?thesis
    by (intro exI [of _ ?d3] conjI) (simp_all only:)
qed

lemma loop_begin_no_fault:
  assumes "sprites d = PyList xs"
    and "list_all (\<lambda>s. \<not> raises env load_opengl s) (list_of_dlist (sprites_to_load d))"
  shows "loop_begin env d p =
     (Inr (),
      d\<lparr>sprites_to_load := Dlist.empty,
        sprites := PyList (xs @ list_of_dlist (sprites_to_load d))\<rparr>,
      p\<lparr>trace := trace p @
          GLClear # map (Hook load_opengl) (list_of_dlist (sprites_to_load d))\<rparr>)"
  using assms
  by (simp add: loop_begin_def for_each_sprite_def for_each_no_fault outcome_def emit_def
        Let_def)

subsection \<open>Construction\<close>




text \<open>With the flag set the construction succeeds with a warning, and the first
  instance still stays current.\<close>

lemma second_display_with_flag:
  "INSTANCE p = Some i \<Longrightarrow> ALLOW_MULTIPLE_DISPLAYS p \<Longrightarrow>
   \<not> isl (fst (Display_init env self tkw p)) \<and>
   INSTANCE (snd (Display_init env self tkw p)) = Some i \<and>
   trace (snd (Display_init env self tkw p)) = trace p @ [LogWarning, LogInfo]"
  by (simp add: Display_init_def emit_def)

subsection \<open>Destruction\<close>

text \<open>
  C6, as the code has it: every call to \<^verbatim>\<open>destroy\<close> sets \<^verbatim>\<open>Display.INSTANCE\<close> to
  \<^verbatim>\<open>None\<close>, whichever instance is destroyed and whichever is current.
\<close>

theorem destroy_resets_INSTANCE: "INSTANCE (snd (destroy d p)) = None"
  by (simp add: destroy_def Let_def)

theorem destroy_resets_INSTANCE_witness:
  "INSTANCE (snd (destroy fresh_display fresh_process)) = None"
  by (rule destroy_resets_INSTANCE)

text \<open>
  The claim as stated fails: display 1 has been destroyed and display 2 is the
  current instance; destroying display 1 once more clears the pointer to display 2.
\<close>

theorem destroy_clears_other_instance:
  "ident (fst retired) = 1 \<and> INSTANCE (snd second) = Some 2 \<and>
   INSTANCE (snd (destroy (fst retired) (snd second))) = None"
  by (simp add: retired_eval second_eval destroy_def Let_def fresh_display_def fresh_eval)

subsection \<open>The mouse position\<close>

text \<open>
  C9: on a display whose \<^verbatim>\<open>mouse\<close> is \<^verbatim>\<open>None\<close>, \<^verbatim>\<open>mouse_position\<close> returns the
  pointer coordinates of the tk window when there is one and \<open>(-1, -1)\<close> otherwise;
  it does not raise.
\<close>

theorem mouse_position_without_mouse:
  "mouse d = Some None \<Longrightarrow>
   mouse_position d =
     Inr (case tkwin d of Some t \<Rightarrow> winfo_pointerxy t | None \<Rightarrow> (- 1, - 1))"
  by (simp add: mouse_position_def split: option.splits)

theorem mouse_position_without_mouse_witness:
  "mouse tk_display = Some None \<and> mouse_position tk_display = Inr (5, 7) \<and>
   mouse fresh_display = Some None \<and> mouse_position fresh_display = Inr (- 1, - 1)"
proof -
  have t: "mouse tk_display = Some None"
    by (simp add: tk_display_eval fresh_display_def fresh_eval)
  have f: "mouse fresh_display = Some None"
    by (simp add: fresh_display_def fresh_eval)
  from t f mouse_position_without_mouse [OF t] mouse_position_without_mouse [OF f]
  show ?thesis by (simp add: tk_display_eval fresh_display_def fresh_eval)
qed

subsection \<open>The clip planes\<close>

text \<open>
  C10: a display returned by \<^verbatim>\<open>create\<close> has the near and far clip planes that were
  passed; where none was passed, near is 0.5 and far 800.0 in three dimensions, and
  near is -1.0 and far 500.0 otherwise.
\<close>

theorem create_near_far:
  assumes "create env self a p = (Inr d, p')"
  shows "near d = Some (case near_arg a of
                          None \<Rightarrow> if is_3d_arg a then 0.5 else - 1.0
                        | Some v \<Rightarrow> v) \<and>
         far d = Some (case far_arg a of
                         None \<Rightarrow> if is_3d_arg a then 800.0 else 500.0
                       | Some v \<Rightarrow> v)"
proof -
  obtain tkw x y p0 where ow: "open_window env a p = (Inr (tkw, x, y), p0)"
    using assms by (auto simp: create_def split: prod.splits sum.splits)
  obtain d0 p1 where di: "Display_init env self tkw p0 = (Inr d0, p1)"
    using assms ow by (auto simp: create_def split: prod.splits sum.splits)
  let ?nr = "case near_arg a of
               None \<Rightarrow> if is_3d_arg a then DEFAULT_NEAR_3D else DEFAULT_NEAR_2D
             | Some v \<Rightarrow> v"
  let ?fr = "case far_arg a of
               None \<Rightarrow> if is_3d_arg a then DEFAULT_FAR_3D else DEFAULT_FAR_2D
             | Some v \<Rightarrow> v"
  from assms ow di have "near d = Some ?nr \<and> far d = Some ?fr"
    by (auto simp: create_def Let_def split: prod.splits option.splits if_splits)
  then show ?thesis
    by (simp add: DEFAULT_NEAR_3D_def DEFAULT_FAR_3D_def DEFAULT_NEAR_2D_def
          DEFAULT_FAR_2D_def split: option.splits)
qed

theorem create_near_far_witness:
  "near fresh_display = Some 0.5 \<and> far fresh_display = Some 800 \<and>
   near flat_display = Some (- 1) \<and> far flat_display = Some 100"
proof -
  have c: "create quiet_env 1 default_args initial_process = (Inr fresh_display, fresh_process)"
    using fresh_eval [unfolded fresh_def]
    by (simp add: fresh_display_def fresh_process_def fresh_def)
  have f: "create quiet_env 1 flat_args initial_process =
             (Inr flat_display, snd (create quiet_env 1 flat_args initial_process))"
    by (simp add: flat_display_def flat_args_def factory_defs quiet_env_def
          initial_process_def default_args_def)
  from create_near_far [OF c] create_near_far [OF f] show ?thesis
    by (simp add: default_args_def flat_args_def)
qed

subsection \<open>The first call of \<^verbatim>\<open>loop_running\<close>\<close>

text \<open>
  C8: on a running display that has not been started (neither loop flag set, the
  sprites still a list), when no pending sprite's load hook raises, the first
  \<^verbatim>\<open>loop_running\<close> records the clock reading in \<^verbatim>\<open>self.time\<close>, sets
  \<^verbatim>\<open>external_loop\<close>, runs the begin phase only (the frame buffer is cleared and the
  pending sprites are loaded; nothing is repainted, swapped, unloaded or slept) and
  returns True.
\<close>

theorem first_loop_running:
  assumes "is_running d" and "\<not> internal_loop d" and "\<not> external_loop d"
    and "sprites d = PyList xs"
    and "list_all (\<lambda>s. \<not> raises env load_opengl s) (list_of_dlist (sprites_to_load d))"
  shows "loop_running env d p =
     (Inr True,
      d\<lparr>time := Some (clock env (ticks p)), external_loop := True,
        sprites_to_load := Dlist.empty,
        sprites := PyList (xs @ list_of_dlist (sprites_to_load d))\<rparr>,
      p\<lparr>ticks := Suc (ticks p),
        trace := trace p @
          GLClear # map (Hook load_opengl) (list_of_dlist (sprites_to_load d))\<rparr>)"
  using assms
  by (simp add: loop_running_def loop_begin_no_fault)

theorem first_loop_running_witness:
  "fst (loop_running quiet_env (add_sprites [1, 2, 3] fresh_display) fresh_process) = Inr True \<and>
   time (fst (snd (loop_running quiet_env (add_sprites [1, 2, 3] fresh_display) fresh_process)))
     = Some 0 \<and>
   external_loop
     (fst (snd (loop_running quiet_env (add_sprites [1, 2, 3] fresh_display) fresh_process))) \<and>
   trace (snd (snd (loop_running quiet_env (add_sprites [1, 2, 3] fresh_display) fresh_process)))
     = trace fresh_process @
         [GLClear, Hook load_opengl 3, Hook load_opengl 2, Hook load_opengl 1]"
proof -
  let ?d = "add_sprites [1, 2, 3] fresh_display"
  have r: "is_running ?d" and i: "\<not> internal_loop ?d" and e: "\<not> external_loop ?d"
    and s: "sprites ?d = PyList []"
    by (simp_all add: add_sprites_def fresh_display_def fresh_eval)
  have l: "list_all (\<lambda>s. \<not> raises quiet_env load_opengl s)
             (list_of_dlist (sprites_to_load ?d))"
    by (simp add: quiet_env_def list_all_iff)
  show ?thesis
    unfolding first_loop_running [OF r i e s l]
    by (simp add: add_sprites_def fresh_display_def fresh_process_def fresh_eval
          quiet_env_def)
qed

subsection \<open>Frame pacing\<close>

text \<open>
  Lines 164-168 by themselves: on a display whose \<^verbatim>\<open>frames_per_second\<close> is truthy
  and whose start time is recorded, the deadline becomes the float sum of the old
  deadline and the float quotient \<open>1.0 / frames_per_second\<close>, \<open>delta\<close> is the float
  difference of the new deadline and the clock reading, and the step sleeps for
  \<open>delta\<close> when \<open>delta > 0\<close> and not at all otherwise.
\<close>

lemma frame_pacing_by_hand:
  assumes "frames_per_second d = Some fps" and "fps \<noteq> 0" and "time d = Some deadline"
  shows "frame_pacing env d p =
     (Inr (),
      d\<lparr>time := Some (float_add env deadline (float_div env 1 fps))\<rparr>,
      (if 0 < float_sub env (float_add env deadline (float_div env 1 fps))
                (clock env (ticks p))
       then emit (Sleep (float_sub env (float_add env deadline (float_div env 1 fps))
                           (clock env (ticks p))))
              (p\<lparr>ticks := Suc (ticks p)\<rparr>)
       else p\<lparr>ticks := Suc (ticks p)\<rparr>))"
  using assms by (simp add: frame_pacing_def Let_def)

text \<open>
  No display that \<^verbatim>\<open>create\<close> returns gets there: the function takes
  \<^verbatim>\<open>frames_per_second\<close> and never assigns it, and nothing else in the module does.
\<close>

lemma create_forgets_frames_per_second:
  assumes "create env self a p = (Inr d, p')"
  shows "frames_per_second d = None"
proof -
  obtain tkw x y p0 where ow: "open_window env a p = (Inr (tkw, x, y), p0)"
    using assms by (auto simp: create_def split: prod.splits sum.splits)
  obtain d0 p1 where di: "Display_init env self tkw p0 = (Inr d0, p1)"
    using assms ow by (auto simp: create_def split: prod.splits sum.splits)
  from di have "frames_per_second d0 = None"
    by (auto simp: Display_init_def Let_def split: option.splits if_splits)
  with assms ow di show ?thesis
    by (auto simp: create_def Let_def split: prod.splits option.splits if_splits)
qed

text \<open>Without the attribute an end phase neither moves the deadline nor sleeps,
  whatever the hooks do.\<close>

lemma for_each_no_sleep:
  "for_each env f xs p = (e, rest, p') \<Longrightarrow>
   \<exists>evs. trace p' = trace p @ evs \<and> filter is_sleep evs = []"
proof (induction xs arbitrary: p)
  case Nil
  then show ?case by simp
next
  case (Cons x xs)
  show ?case
  proof (cases "raises env f x \<and> RAISE_EXCEPTIONS p")
    case True
    with Cons.prems have "trace p' = trace p @ [Hook f x, LogError]"
      by (auto simp: emit_def)
    then show ?thesis by simp
  next
    case False
    then obtain q evs0 where q: "for_each env f xs q = (e, rest, p')"
      and t: "trace q = trace p @ evs0" and n: "filter is_sleep evs0 = []"
    proof (cases "raises env f x")
      case True
      with False Cons.prems
      have "for_each env f xs (emit LogError (emit (Hook f x) p)) = (e, rest, p')"
        by simp
      moreover have "trace (emit LogError (emit (Hook f x) p)) = trace p @ [Hook f x, LogError]"
        by (simp add: emit_def)
      ultimately show ?thesis using that [of _ "[Hook f x, LogError]"] by simp
    next
      case False
      with Cons.prems have "for_each env f xs (emit (Hook f x) p) = (e, rest, p')"
        by simp
      moreover have "trace (emit (Hook f x) p) = trace p @ [Hook f x]"
        by (simp add: emit_def)
      ultimately show ?thesis using that [of _ "[Hook f x]"] by simp
    qed
    from Cons.IH [OF q] obtain evs where "trace p' = trace q @ evs" "filter is_sleep evs = []"
      by blast
    with t n show ?thesis by simp
  qed
qed

lemma unload_each_no_sleep:
  "unload_each env xs p = (e, p') \<Longrightarrow>
   \<exists>evs. trace p' = trace p @ evs \<and> filter is_sleep evs = []"
proof (induction xs arbitrary: p)
  case Nil
  then show ?case by simp
next
  case (Cons x xs)
  show ?case
  proof (cases "raises env unload_opengl x")
    case True
    with Cons.prems have "trace p' = trace p @ [Hook unload_opengl x]"
      by (auto simp: emit_def)
    then show ?thesis by simp
  next
    case False
    with Cons.prems have "unload_each env xs (emit (Hook unload_opengl x) p) = (e, p')"
      by simp
    from Cons.IH [OF this] obtain evs where
      "trace p' = trace p @ Hook unload_opengl x # evs" "filter is_sleep evs = []"
      by (auto simp: emit_def)
    then show ?thesis by simp
  qed
qed

lemma for_each_sprite_no_sleep:
  assumes "for_each_sprite env f arg d p = (r, d', p')"
  shows "time d' = time d \<and> frames_per_second d' = frames_per_second d \<and>
    (\<exists>evs. trace p' = trace p @ evs \<and> filter is_sleep evs = [])"
proof -
  let ?xs = "case arg of Some xs \<Rightarrow> xs | None \<Rightarrow> items (sprites d)"
  obtain e rest q where fe: "for_each env f ?xs p = (e, rest, q)"
    by (metis prod_cases3)
  with assms have "p' = q" "time d' = time d" "frames_per_second d' = frames_per_second d"
    by (auto simp: for_each_sprite_def split: option.splits sprites_val.splits)
  with for_each_no_sleep [OF fe] show ?thesis by simp
qed

lemma unpaced_end_phase:
  assumes "frames_per_second d = None"
    and "loop_end env d p = (r, d', p')"
  shows "time d' = time d \<and> frames_per_second d' = None \<and>
    (\<exists>evs. trace p' = trace p @ evs \<and> filter is_sleep evs = [])"
proof -
  let ?U = "list_of_dlist (sprites_to_unload d)"
  let ?d2 = "if ?U \<noteq> []
             then d\<lparr>sprites_to_unload := Dlist.empty\<rparr>
                   \<lparr>sprites := PyGen (filter (\<lambda>s. s \<in> set ?U)
                       (items (sprites (d\<lparr>sprites_to_unload := Dlist.empty\<rparr>))))\<rparr>
             else d\<lparr>sprites_to_unload := Dlist.empty\<rparr>"
  let ?t = "clock env (ticks p)"
  let ?p1 = "p\<lparr>ticks := Suc (ticks p)\<rparr>"
  obtain r1 d3 p2 where fs: "for_each_sprite env (repaint ?t) None ?d2 ?p1 = (r1, d3, p2)"
    by (metis prod_cases3)
  from for_each_sprite_no_sleep [OF fs] assms(1) obtain evs1 where
    d3: "time d3 = time d" "frames_per_second d3 = None"
    and t1: "trace p2 = trace p @ evs1" and n1: "filter is_sleep evs1 = []"
    by auto
  have le: "loop_end env d p =
     (case r1 of
        Inl x \<Rightarrow> (Inl x, d3, p2)
      | Inr u \<Rightarrow>
          (case unload_each env ?U (emit SwapBuffers p2) of
             (Some x, p3) \<Rightarrow> (Inl x, d3, p3)
           | (None, p3) \<Rightarrow> frame_pacing env d3 p3))"
    unfolding loop_end_def Let_def fs
    by (simp split: sum.splits)
  show ?thesis
  proof (cases r1)
    case (Inl x)
    with le assms(2) have "d' = d3" "p' = p2" by auto
    with d3 t1 n1 show ?thesis by auto
  next
    case (Inr u)
    obtain e2 p3 where ue: "unload_each env ?U (emit SwapBuffers p2) = (e2, p3)"
      by force
    from unload_each_no_sleep [OF ue] t1 obtain evs2 where
      t2: "trace p3 = trace p @ evs1 @ SwapBuffers # evs2" and n2: "filter is_sleep evs2 = []"
      by (auto simp: emit_def)
    from le Inr ue assms(2) d3 have "d' = d3" "p' = p3"
      by (auto simp: frame_pacing_def split: option.splits)
    with d3 t2 n1 n2 show ?thesis by auto
  qed
qed

lemma paced_eval: "paced = fresh"
  by (simp add: paced_def paced_args_def fresh_def factory_defs quiet_env_def
        initial_process_def default_args_def)

lemma paced_frame1_eval: "paced_frame1 = frame1"
  by (simp add: paced_frame1_def frame1_def paced_eval fresh_display_def fresh_process_def)

text \<open>
  C5 at a concrete input. A display is made with \<^verbatim>\<open>create(frames_per_second=30)\<close>
  and three sprites; the first \<^verbatim>\<open>loop_running\<close> records the start time 0. The
  second one runs its end phase a hundredth of a second later, well before a deadline
  a thirtieth of a second after the start. The display has no \<^verbatim>\<open>frames_per_second\<close>:
  the end phase leaves \<^verbatim>\<open>self.time\<close> at the start time and does not sleep.
\<close>

theorem frames_per_second_is_dropped:
  "frames_per_second_arg paced_args = Some 30 \<and>
   frames_per_second (projr (fst paced)) = None \<and>
   fst paced_frame1 = Inr True \<and> time (fst (snd paced_frame1)) = Some 0 \<and>
   paced_frame2 =
     (Inr True, fst (snd paced_frame1),
      (snd (snd paced_frame1))\<lparr>ticks := 2,
        trace := trace (snd (snd paced_frame1)) @
          [Hook (repaint (1 / 100)) 3, Hook (repaint (1 / 100)) 2,
           Hook (repaint (1 / 100)) 1, SwapBuffers, GLClear]\<rparr>)"
  by (simp add: paced_frame2_def paced_frame1_eval paced_eval paced_args_def frame1_eval
        fresh_display_def fresh_process_def fresh_eval loop_defs quiet_env_def)

subsection \<open>After \<^verbatim>\<open>destroy\<close>\<close>

text \<open>
  C3, as the code has it: after \<^verbatim>\<open>destroy\<close> has completed, \<^verbatim>\<open>loop_running\<close> does
  not fail. With no frame rate set and no hook raising it runs one more end phase
  (the sprites that line 154 leaves are repainted, the buffers are swapped, the
  sprites marked for removal are unloaded), then calls \<^verbatim>\<open>destroy\<close> once more (the
  OpenGL context, the mouse and the tk window are released again) and returns False;
  the display stays stopped and \<^verbatim>\<open>Display.INSTANCE\<close> is \<^verbatim>\<open>None\<close>.
\<close>

theorem loop_running_after_destroy:
  assumes "\<forall>c s. \<not> raises env c s" and "frames_per_second d = None"
    and "destroy d p = (dd, pd)"
    and "loop_running env dd pd = (r, d', p')"
  shows "r = Inr False \<and> \<not> is_running d' \<and> INSTANCE p' = None \<and>
    trace p' = trace pd @
      map (Hook (repaint (clock env (ticks pd))))
        (if list_of_dlist (sprites_to_unload d) = [] then items (sprites d)
         else filter (\<lambda>s. s \<in> set (list_of_dlist (sprites_to_unload d)))
                (items (sprites d))) @
      SwapBuffers #
      map (Hook unload_opengl) (list_of_dlist (sprites_to_unload d)) @
      OpenGLDestroy #
      (case mouse d of Some (Some m) \<Rightarrow> [MouseStop] | _ \<Rightarrow> []) @
      (case tkwin d of Some t \<Rightarrow> [TkDestroy] | None \<Rightarrow> [])"
proof -
  let ?E = "map (Hook (repaint (clock env (ticks pd))))
        (if list_of_dlist (sprites_to_unload d) = [] then items (sprites d)
         else filter (\<lambda>s. s \<in> set (list_of_dlist (sprites_to_unload d)))
                (items (sprites d))) @
      SwapBuffers # map (Hook unload_opengl) (list_of_dlist (sprites_to_unload d))"
  let ?p1 = "pd\<lparr>ticks := Suc (ticks pd), trace := trace pd @ ?E\<rparr>"
  from assms(3) have dd: "dd = d\<lparr>is_running := False\<rparr>"
    by (auto simp: destroy_def stop_def Let_def)
  have "\<exists>d1. loop_end env dd pd = frame_pacing env d1 ?p1 \<and>
          frames_per_second d1 = None \<and> mouse d1 = mouse d \<and> tkwin d1 = tkwin d"
    using loop_end_no_fault [OF assms(1), of "d\<lparr>is_running := False\<rparr>" pd] assms(2)
    unfolding dd by (simp cong: if_cong split del: if_split) blast
  then obtain d1 where
    le: "loop_end env dd pd = frame_pacing env d1 ?p1"
    and d1: "frames_per_second d1 = None" "mouse d1 = mouse d" "tkwin d1 = tkwin d"
    by blast
  from le d1 have le': "loop_end env dd pd = (Inr (), d1, ?p1)"
    by (simp add: frame_pacing_def)
  obtain d2 p2 where ds: "destroy d1 ?p1 = (d2, p2)"
    by force
  from ds d1 have d2: "\<not> is_running d2" "INSTANCE p2 = None"
    "trace p2 = trace pd @ ?E @ OpenGLDestroy #
       (case mouse d of Some (Some m) \<Rightarrow> [MouseStop] | _ \<Rightarrow> []) @
       (case tkwin d of Some t \<Rightarrow> [TkDestroy] | None \<Rightarrow> [])"
    by (auto simp: destroy_def stop_def Let_def emit_def split: option.splits)
  from assms(4) dd le' ds d2(1) have "r = Inr False" "d' = d2" "p' = p2"
    by (auto simp: loop_running_def)
  with d2 show ?thesis by simp
qed

text \<open>
  The sample display is destroyed after its first frame, once with sprite 2 marked
  for removal and once with nothing marked; \<^verbatim>\<open>loop_running\<close> then repaints (sprite 2
  alone in the first case, all three in the second), swaps, unloads and destroys
  again.
\<close>

theorem loop_running_after_destroy_witness:
  "(\<exists>r d' p'.
      loop_running quiet_env
        (fst (destroy (remove_sprites [2] frame1_display) frame1_process))
        (snd (destroy (remove_sprites [2] frame1_display) frame1_process)) = (r, d', p') \<and>
      r = Inr False \<and> \<not> is_running d' \<and> INSTANCE p' = None \<and>
      trace p' = trace frame1_process @
        [OpenGLDestroy, Hook (repaint (1 / 100)) 2, SwapBuffers, Hook unload_opengl 2,
         OpenGLDestroy]) \<and>
   (\<exists>r d' p'.
      loop_running quiet_env (fst (destroy frame1_display frame1_process))
        (snd (destroy frame1_display frame1_process)) = (r, d', p') \<and>
      r = Inr False \<and> \<not> is_running d' \<and> INSTANCE p' = None \<and>
      trace p' = trace frame1_process @
        [OpenGLDestroy, Hook (repaint (1 / 100)) 3, Hook (repaint (1 / 100)) 2,
         Hook (repaint (1 / 100)) 1, SwapBuffers, OpenGLDestroy])"
proof -
  have q: "\<forall>c s. \<not> raises quiet_env c s"
    by (simp add: quiet_env_def)
  have f: "frames_per_second (remove_sprites old frame1_display) = None" for old
    by (simp add: remove_sprites_def frame1_display_def frame1_eval fresh_display_def
          fresh_eval)
  have g: "frames_per_second frame1_display = None"
    using f [of "[]"] by (simp add: remove_sprites_def)
  let ?a = "destroy (remove_sprites [2] frame1_display) frame1_process"
  let ?b = "destroy frame1_display frame1_process"
  have da: "destroy (remove_sprites [2] frame1_display) frame1_process = (fst ?a, snd ?a)"
    and db: "destroy frame1_display frame1_process = (fst ?b, snd ?b)"
    by simp_all
  obtain r d' p' where a: "loop_running quiet_env (fst ?a) (snd ?a) = (r, d', p')"
    by (metis prod_cases3)
  obtain r2 d2 p2 where b: "loop_running quiet_env (fst ?b) (snd ?b) = (r2, d2, p2)"
    by (metis prod_cases3)
  have ta: "trace (snd ?a) = trace frame1_process @ [OpenGLDestroy]"
    "ticks (snd ?a) = 1"
    and tb: "trace (snd ?b) = trace frame1_process @ [OpenGLDestroy]"
    "ticks (snd ?b) = 1"
    by (simp_all add: destroy_def stop_def emit_def remove_sprites_def frame1_display_def
          frame1_process_def frame1_eval fresh_display_def fresh_eval)
  have "r = Inr False \<and> \<not> is_running d' \<and> INSTANCE p' = None \<and>
      trace p' = trace frame1_process @
        [OpenGLDestroy, Hook (repaint (1 / 100)) 2, SwapBuffers, Hook unload_opengl 2,
         OpenGLDestroy]"
    using loop_running_after_destroy [OF q f da a] ta
    by (simp add: remove_sprites_def frame1_display_def frame1_eval fresh_display_def
          fresh_eval quiet_env_def)
  moreover have "r2 = Inr False \<and> \<not> is_running d2 \<and> INSTANCE p2 = None \<and>
      trace p2 = trace frame1_process @
        [OpenGLDestroy, Hook (repaint (1 / 100)) 3, Hook (repaint (1 / 100)) 2,
         Hook (repaint (1 / 100)) 1, SwapBuffers, OpenGLDestroy]"
    using loop_running_after_destroy [OF q g db b] tb
    by (simp add: frame1_display_def frame1_eval fresh_display_def fresh_eval quiet_env_def)
  ultimately show ?thesis using a b by blast
qed

text \<open>
  The claim as stated fails: on the destroyed sample display \<^verbatim>\<open>loop_running\<close>
  returns False, not an error, after swapping buffers and destroying again.
\<close>

theorem loop_running_after_destroy_returns:
  "loop_running quiet_env (fst retired) (snd retired) =
     (Inr False, fst retired,
      (snd retired)\<lparr>ticks := 1,
        trace := trace (snd retired) @ [SwapBuffers, OpenGLDestroy]\<rparr>)"
  by (simp add: retired_eval fresh_display_def fresh_process_def fresh_eval loop_defs
        destroy_def stop_def quiet_env_def)

subsection \<open>The unload commit\<close>

text \<open>
  C1 at a concrete input. The active sprites are 3, 2, 1 and sprite 2 is marked
  for removal. The end phase repaints sprite 2 alone, unloads it, and leaves
  \<^verbatim>\<open>self.sprites\<close> an exhausted generator: line 154 keeps what it should drop
  (\<^verbatim>\<open>if s in to_unload\<close>) and builds a generator where a list is needed.
\<close>

theorem loop_end_keeps_the_removed:
  "sprites frame1_display = PyList [3, 2, 1] \<and>
   list_of_dlist (sprites_to_unload (remove_sprites [2] frame1_display)) = [2] \<and>
   loop_end quiet_env (remove_sprites [2] frame1_display) frame1_process =
     (Inr (),
      frame1_display\<lparr>sprites := PyGen []\<rparr>,
      frame1_process\<lparr>ticks := 2,
        trace := trace frame1_process @
          [Hook (repaint (1 / 100)) 2, SwapBuffers, Hook unload_opengl 2]\<rparr>)"
  by (simp add: frame1_display_def frame1_process_def frame1_eval fresh_display_def
        fresh_process_def fresh_eval loop_defs quiet_env_def)

text \<open>The begin phase that follows such a commit cannot extend the generator.\<close>

lemma loop_begin_on_generator:
  "sprites d = PyGen xs \<Longrightarrow>
   loop_begin env d p = (Inl AttributeError, d\<lparr>sprites_to_load := Dlist.empty\<rparr>, emit GLClear p)"
  by (simp add: loop_begin_def)

subsection \<open>Hooks that raise\<close>

text \<open>
  C7 at a concrete input. Sprite 1 is marked for removal, its unload hook raises and
  \<^verbatim>\<open>RAISE_EXCEPTIONS\<close> is off. The exception leaves \<^verbatim>\<open>_loop_end\<close> all the same, and
  nothing is logged: the trace ends with the hook call.
\<close>

theorem unload_fault_is_not_handled:
  "loop_end faulty_env (remove_sprites [1] frame1_display)
      (frame1_process\<lparr>RAISE_EXCEPTIONS := False\<rparr>) =
     (Inl (SpriteFault unload_opengl 1),
      frame1_display\<lparr>sprites := PyGen []\<rparr>,
      frame1_process\<lparr>RAISE_EXCEPTIONS := False, ticks := 2,
        trace := trace frame1_process @
          [Hook (repaint (1 / 100)) 1, SwapBuffers, Hook unload_opengl 1]\<rparr>)"
  by (simp add: frame1_display_def frame1_process_def frame1_eval fresh_display_def
        fresh_process_def fresh_eval loop_defs quiet_env_def faulty_env_def)

text \<open>
  The load and repaint hooks go through \<^verbatim>\<open>_for_each_sprite\<close>, which does follow the
  flag: with the flag off the loop reaches every sprite and returns normally; with
  the flag on (the default, line 18) the first hook that raises ends it, after its
  fault has been logged.
\<close>

lemma RAISE_EXCEPTIONS_default: "RAISE_EXCEPTIONS initial_process"
  by (simp add: initial_process_def)

lemma for_each_swallows:
  "\<not> RAISE_EXCEPTIONS p \<Longrightarrow>
   \<exists>evs. for_each env f xs p = (None, [], p\<lparr>trace := trace p @ evs\<rparr>) \<and>
         filter (\<lambda>e. e \<noteq> LogError) evs = map (Hook f) xs \<and>
         length (filter (\<lambda>e. e = LogError) evs) = length (filter (raises env f) xs)"
proof (induction xs arbitrary: p)
  case Nil
  show ?case by (intro exI [of _ "[]"]) simp
next
  case (Cons s xs)
  show ?case
  proof (cases "raises env f s")
    case True
    let ?p = "emit LogError (emit (Hook f s) p)"
    from Cons.prems have "\<not> RAISE_EXCEPTIONS ?p" by (simp add: emit_def)
    from Cons.IH [OF this] obtain evs where
      "for_each env f xs ?p = (None, [], ?p\<lparr>trace := trace ?p @ evs\<rparr>)"
      "filter (\<lambda>e. e \<noteq> LogError) evs = map (Hook f) xs"
      "length (filter (\<lambda>e. e = LogError) evs) = length (filter (raises env f) xs)"
      by blast
    with True Cons.prems show ?thesis
      by (intro exI [of _ "Hook f s # LogError # evs"]) (simp add: emit_def)
  next
    case False
    let ?p = "emit (Hook f s) p"
    from Cons.prems have "\<not> RAISE_EXCEPTIONS ?p" by (simp add: emit_def)
    from Cons.IH [OF this] obtain evs where
      "for_each env f xs ?p = (None, [], ?p\<lparr>trace := trace ?p @ evs\<rparr>)"
      "filter (\<lambda>e. e \<noteq> LogError) evs = map (Hook f) xs"
      "length (filter (\<lambda>e. e = LogError) evs) = length (filter (raises env f) xs)"
      by blast
    with False Cons.prems show ?thesis
      by (intro exI [of _ "Hook f s # evs"]) (simp add: emit_def)
  qed
qed

lemma for_each_propagates:
  "RAISE_EXCEPTIONS p \<Longrightarrow> list_ex (raises env f) xs \<Longrightarrow>
   \<exists>ok s rest. xs = ok @ s # rest \<and> list_all (\<lambda>x. \<not> raises env f x) ok \<and> raises env f s \<and>
     for_each env f xs p =
       (Some (SpriteFault f s), rest,
        p\<lparr>trace := trace p @ map (Hook f) ok @ [Hook f s, LogError]\<rparr>)"
proof (induction xs arbitrary: p)
  case Nil
  then show ?case by simp
next
  case (Cons x xs)
  show ?case
  proof (cases "raises env f x")
    case True
    with Cons.prems show ?thesis
      by (intro exI [of _ "[]"] exI [of _ x] exI [of _ xs]) (simp add: emit_def)
  next
    case False
    let ?p = "emit (Hook f x) p"
    from Cons.prems False have "RAISE_EXCEPTIONS ?p" "list_ex (raises env f) xs"
      by (simp_all add: emit_def)
    from Cons.IH [OF this] obtain ok s rest where
      "xs = ok @ s # rest" "list_all (\<lambda>x. \<not> raises env f x) ok" "raises env f s"
      "for_each env f xs ?p =
         (Some (SpriteFault f s), rest,
          ?p\<lparr>trace := trace ?p @ map (Hook f) ok @ [Hook f s, LogError]\<rparr>)"
      by blast
    with False show ?thesis
      by (intro exI [of _ "x # ok"] exI [of _ s] exI [of _ rest]) (simp add: emit_def)
  qed
qed

subsection \<open>The last repaint of a removed sprite\<close>

text \<open>What a hook loop does to one sprite: it calls its hook at most as often as the
  sprite occurs, and exactly as often when the loop ends without an exception.\<close>

lemma count_list_filter:
  "count_list (filter P xs) s = (if P s then count_list xs s else 0)"
  by (induction xs) auto


lemma for_each_calls:
  "for_each env f xs p = (e, rest, p') \<Longrightarrow>
   \<exists>evs k. trace p' = trace p @ evs \<and> k \<le> count_list xs s \<and>
     filter (on_sprite s) evs = replicate k (Hook f s) \<and>
     (e = None \<longrightarrow> k = count_list xs s \<and> rest = [])"
proof (induction xs arbitrary: p)
  case Nil
  then show ?case by (intro exI [of _ "[]"] exI [of _ 0]) auto
next
  case (Cons x xs)
  let ?n = "if x = s then 1 else 0 :: nat"
  show ?case
  proof (cases "raises env f x")
    case False
    with Cons.prems have "for_each env f xs (emit (Hook f x) p) = (e, rest, p')"
      by simp
    from Cons.IH [OF this] obtain evs k where
      "trace p' = trace p @ Hook f x # evs" "k \<le> count_list xs s"
      "filter (on_sprite s) evs = replicate k (Hook f s)"
      "e = None \<longrightarrow> k = count_list xs s \<and> rest = []"
      by (auto simp: emit_def)
    then show ?thesis
      by (intro exI [of _ "Hook f x # evs"] exI [of _ "?n + k"]) auto
  next
    case True
    show ?thesis
    proof (cases "RAISE_EXCEPTIONS p")
      case True
      with \<open>raises env f x\<close> Cons.prems
      have "e = Some (SpriteFault f x)" "trace p' = trace p @ [Hook f x, LogError]"
        by (auto simp: emit_def)
      then show ?thesis
        by (intro exI [of _ "[Hook f x, LogError]"] exI [of _ "?n"]) auto
    next
      case False
      with \<open>raises env f x\<close> Cons.prems
      have "for_each env f xs (emit LogError (emit (Hook f x) p)) = (e, rest, p')"
        by (simp add: emit_def)
      from Cons.IH [OF this] obtain evs k where
        "trace p' = trace p @ Hook f x # LogError # evs" "k \<le> count_list xs s"
        "filter (on_sprite s) evs = replicate k (Hook f s)"
        "e = None \<longrightarrow> k = count_list xs s \<and> rest = []"
        by (auto simp: emit_def)
      then show ?thesis
        by (intro exI [of _ "Hook f x # LogError # evs"] exI [of _ "?n + k"]) auto
    qed
  qed
qed

lemma unload_each_calls:
  "unload_each env xs p = (e, p') \<Longrightarrow>
   \<exists>evs k. trace p' = trace p @ evs \<and> k \<le> count_list xs s \<and>
     filter (on_sprite s) evs = replicate k (Hook unload_opengl s) \<and>
     (e = None \<longrightarrow> k = count_list xs s)"
proof (induction xs arbitrary: p)
  case Nil
  then show ?case by (intro exI [of _ "[]"] exI [of _ 0]) auto
next
  case (Cons x xs)
  let ?n = "if x = s then 1 else 0 :: nat"
  show ?case
  proof (cases "raises env unload_opengl x")
    case False
    with Cons.prems have "unload_each env xs (emit (Hook unload_opengl x) p) = (e, p')"
      by simp
    from Cons.IH [OF this] obtain evs k where
      "trace p' = trace p @ Hook unload_opengl x # evs" "k \<le> count_list xs s"
      "filter (on_sprite s) evs = replicate k (Hook unload_opengl s)"
      "e = None \<longrightarrow> k = count_list xs s"
      by (auto simp: emit_def)
    then show ?thesis
      by (intro exI [of _ "Hook unload_opengl x # evs"] exI [of _ "?n + k"]) auto
  next
    case True
    with Cons.prems
    have "e = Some (SpriteFault unload_opengl x)"
      "trace p' = trace p @ [Hook unload_opengl x]"
      by (auto simp: emit_def)
    then show ?thesis
      by (intro exI [of _ "[Hook unload_opengl x]"] exI [of _ "?n"]) auto
  qed
qed

lemma frame_pacing_calls:
  "frame_pacing env d p = (r, d', p') \<Longrightarrow>
   \<exists>evs. trace p' = trace p @ evs \<and> filter (on_sprite s) evs = [] \<and>
     sprites d' = sprites d \<and> sprites_to_unload d' = sprites_to_unload d"
  by (auto simp: frame_pacing_def Let_def emit_def split: option.splits if_splits)

text \<open>
  An end phase that commits a removal, seen from one sprite \<open>s\<close>: it is repainted as
  often as it occurs among the active sprites that are marked for removal, then
  unloaded if it is marked; an exception cuts this short, and no unload call is made
  unless all the repaint calls were.
\<close>

lemma loop_end_calls:
  assumes "list_of_dlist (sprites_to_unload d) \<noteq> []"
    and "loop_end env d p = (r, d', p')"
  shows "\<exists>evs k1 k2. trace p' = trace p @ evs \<and>
     filter (on_sprite s) evs =
       replicate k1 (Hook (repaint (clock env (ticks p))) s) @
       replicate k2 (Hook unload_opengl s) \<and>
     k1 \<le> count_list (filter (\<lambda>x. x \<in> set (list_of_dlist (sprites_to_unload d)))
                        (items (sprites d))) s \<and>
     k2 \<le> count_list (list_of_dlist (sprites_to_unload d)) s \<and>
     (0 < k2 \<longrightarrow>
        k1 = count_list (filter (\<lambda>x. x \<in> set (list_of_dlist (sprites_to_unload d)))
                          (items (sprites d))) s) \<and>
     (r = Inr () \<longrightarrow>
        k1 = count_list (filter (\<lambda>x. x \<in> set (list_of_dlist (sprites_to_unload d)))
                          (items (sprites d))) s \<and>
        k2 = count_list (list_of_dlist (sprites_to_unload d)) s \<and>
        sprites d' = PyGen [] \<and> sprites_to_unload d' = Dlist.empty)"
proof -
  let ?U = "list_of_dlist (sprites_to_unload d)"
  let ?R = "filter (\<lambda>x. x \<in> set ?U) (items (sprites d))"
  let ?t = "clock env (ticks p)"
  let ?p1 = "p\<lparr>ticks := Suc (ticks p)\<rparr>"
  obtain e1 rest p2 where fe: "for_each env (repaint ?t) ?R ?p1 = (e1, rest, p2)"
    by (metis prod_cases3)
  from for_each_calls [OF fe, of s] obtain evs1 k1 where
    t1: "trace p2 = trace p @ evs1" and k1: "k1 \<le> count_list ?R s"
    and c1: "filter (on_sprite s) evs1 = replicate k1 (Hook (repaint ?t) s)"
    and n1: "e1 = None \<longrightarrow> k1 = count_list ?R s \<and> rest = []"
    by auto
  let ?d3 = "d\<lparr>sprites_to_unload := Dlist.empty, sprites := PyGen rest\<rparr>"
  have le: "loop_end env d p =
     (case e1 of
        Some x \<Rightarrow> (Inl x, ?d3, p2)
      | None \<Rightarrow>
          (case unload_each env ?U (emit SwapBuffers p2) of
             (Some x, p3) \<Rightarrow> (Inl x, ?d3, p3)
           | (None, p3) \<Rightarrow> frame_pacing env ?d3 p3))"
    using assms(1) fe
    by (simp add: loop_end_def Let_def for_each_sprite_def outcome_def split: option.splits)
  show ?thesis
  proof (cases e1)
    case (Some x)
    with le assms(2) have "r = Inl x" "p' = p2" by auto
    with t1 c1 k1 show ?thesis
      by (intro exI [of _ evs1] exI [of _ k1] exI [of _ 0]) auto
  next
    case None
    with n1 have k1': "k1 = count_list ?R s" and rest: "rest = []"
      by auto
    obtain e2 p3 where ue: "unload_each env ?U (emit SwapBuffers p2) = (e2, p3)"
      by force
    from unload_each_calls [OF ue, of s] obtain evs2 k2 where
      t2: "trace p3 = trace p @ evs1 @ SwapBuffers # evs2" and k2: "k2 \<le> count_list ?U s"
      and c2: "filter (on_sprite s) evs2 = replicate k2 (Hook unload_opengl s)"
      and n2: "e2 = None \<longrightarrow> k2 = count_list ?U s"
      using t1 by (auto simp: emit_def)
    show ?thesis
    proof (cases e2)
      case (Some x)
      with le None ue assms(2) have "r = Inl x" "p' = p3" by auto
      with t2 c1 c2 k1' k2 show ?thesis
        by (intro exI [of _ "evs1 @ SwapBuffers # evs2"] exI [of _ k1] exI [of _ k2]) auto
    next
      case None
      with n2 have k2': "k2 = count_list ?U s"
        by auto
      from le \<open>e1 = None\<close> None ue assms(2)
      have fp: "frame_pacing env ?d3 p3 = (r, d', p')"
        by auto
      from frame_pacing_calls [OF fp, of s] rest obtain evs3 where
        "trace p' = trace p3 @ evs3" "filter (on_sprite s) evs3 = []"
        "sprites d' = PyGen []" "sprites_to_unload d' = Dlist.empty"
        by auto
      with t2 c1 c2 k1' k2' show ?thesis
        by (intro exI [of _ "evs1 @ SwapBuffers # evs2 @ evs3"] exI [of _ k1] exI [of _ k2])
           auto
    qed
  qed
qed

text \<open>
  So a sprite that is not marked for removal is passed over by an end phase that
  commits a removal: the generator of line 154 does not yield it.
\<close>

lemma kept_sprite_is_not_repainted:
  assumes "list_of_dlist (sprites_to_unload d) \<noteq> []"
    and "s \<notin> set (list_of_dlist (sprites_to_unload d))"
    and "loop_end env d p = (r, d', p')"
  shows "\<exists>evs. trace p' = trace p @ evs \<and> filter (on_sprite s) evs = []"
proof -
  from loop_end_calls [OF assms(1,3), of s] assms(2) show ?thesis
    by (auto simp: count_list_filter count_list_0_iff)
qed



end
